theory Spec2Isabelle
  imports Main
begin

section \<open>The host SDK's resource data\<close>

text \<open>
  The provider's functions work on a \<open>*schema.ResourceData\<close> of the Terraform plugin
  SDK and on a \<open>*civogo.Client\<close>. Both are pointers that the functions mutate, so the
  model passes both in and returns them updated.

  A field of the resource data holds a string, a bool or a set of strings, as the
  schemas of the three resources declare. \<open>d.Get\<close> yields the zero value of the
  field's type when the field is unset, so the fields are a total function whose
  unset fields hold the zero value. \<open>old_attrs\<close> is the prior state that
  \<open>d.HasChange\<close> compares with.
\<close>

datatype attr_value = VString string | VBool bool | VSet "string list"

record ResourceData =
  Id :: string
  attrs :: "string \<Rightarrow> attr_value"
  old_attrs :: "string \<Rightarrow> attr_value"

definition is_zero :: "attr_value \<Rightarrow> bool" where
  "is_zero v = (case v of VString s \<Rightarrow> s = [] | VBool b \<Rightarrow> \<not> b | VSet xs \<Rightarrow> xs = [])"

definition Get :: "ResourceData \<Rightarrow> string \<Rightarrow> attr_value" where
  "Get d k = attrs d k"

text \<open>\<open>d.GetOk(k)\<close>: the value, and whether it is set to a non-zero value.\<close>

definition GetOk :: "ResourceData \<Rightarrow> string \<Rightarrow> attr_value \<times> bool" where
  "GetOk d k = (attrs d k, \<not> is_zero (attrs d k))"

text \<open>
  The type assertion \<open>.(string)\<close>. Every field it is applied to is declared
  \<open>schema.TypeString\<close>, so the assertion does not fail there.
\<close>

definition as_string :: "attr_value \<Rightarrow> string" where
  "as_string v = (case v of VString s \<Rightarrow> s | _ \<Rightarrow> [])"

definition Set_attr :: "ResourceData \<Rightarrow> string \<Rightarrow> attr_value \<Rightarrow> ResourceData" where
  "Set_attr d k v = d\<lparr>attrs := (attrs d)(k := v)\<rparr>"

definition SetId :: "ResourceData \<Rightarrow> string \<Rightarrow> ResourceData" where
  "SetId d v = d\<lparr>Id := v\<rparr>"

definition HasChange :: "ResourceData \<Rightarrow> string \<Rightarrow> bool" where
  "HasChange d k = (old_attrs d k \<noteq> attrs d k)"

text \<open>
  \<open>diag.Diagnostics\<close>: \<open>nil\<close> is the empty list, \<open>diag.Errorf\<close> a single error with
  its formatted message. A Go \<open>error\<close> is its message, \<open>nil\<close> is \<open>None\<close>.
\<close>

type_synonym Diagnostics = "string list"
type_synonym error = string

definition Errorf :: "string \<Rightarrow> Diagnostics" where
  "Errorf msg = [msg]"

text \<open>
  A function either returns or panics on a nil pointer dereference. The client and the
  resource data are returned in both cases, as they are when the panic happens.
\<close>

datatype 'a outcome = NilDeref | Returned 'a

section \<open>The vendor SDK client\<close>

text \<open>The fields of the vendor's objects that the provider reads.\<close>

record FirewallRule =
  rule_ID :: string
  rule_FirewallID :: string
  rule_Protocol :: string
  rule_StartPort :: string
  rule_EndPort :: string
  rule_Cidr :: "string list"
  rule_Direction :: string
  rule_Action :: string
  rule_Label :: string

record Firewall =
  fw_ID :: string
  fw_Name :: string
  fw_NetworkID :: string

record Volume =
  vol_ID :: string
  vol_InstanceID :: string

record FirewallConfig =
  cfg_Name :: string

text \<open>The remote calls, as the client's log records them in the order issued.\<close>

datatype call =
    FindFirewallRuleCall string string
  | DeleteFirewallRuleCall string string
  | FindFirewallCall string
  | RenameFirewallCall string FirewallConfig
  | DeleteFirewallCall string
  | FindVolumeCall string
  | AttachVolumeCall string string
  | DetachVolumeCall string

record Client =
  Region :: string
  calls :: "call list"

text \<open>
  The remote side is a parameter: each method's answer is a function of the client
  (its region and the calls issued so far) and of the arguments. A lookup returns a
  pointer and an error, independently nil or not. The response of a delete, rename,
  attach or detach is discarded by every caller, so only its error is kept.
\<close>

record api =
  FindFirewallRule :: "Client \<Rightarrow> string \<Rightarrow> string \<Rightarrow> FirewallRule option \<times> error option"
  DeleteFirewallRule :: "Client \<Rightarrow> string \<Rightarrow> string \<Rightarrow> error option"
  FindFirewall :: "Client \<Rightarrow> string \<Rightarrow> Firewall option \<times> error option"
  RenameFirewall :: "Client \<Rightarrow> string \<Rightarrow> FirewallConfig \<Rightarrow> error option"
  DeleteFirewall :: "Client \<Rightarrow> string \<Rightarrow> error option"
  FindVolume :: "Client \<Rightarrow> string \<Rightarrow> Volume option \<times> error option"
  AttachVolume :: "Client \<Rightarrow> string \<Rightarrow> string \<Rightarrow> error option"
  DetachVolume :: "Client \<Rightarrow> string \<Rightarrow> error option"

definition issue :: "Client \<Rightarrow> call \<Rightarrow> Client" where
  "issue c k = c\<lparr>calls := calls c @ [k]\<rparr>"

text \<open>The calls issued between two states of the client.\<close>

definition issued :: "Client \<Rightarrow> Client \<Rightarrow> call list" where
  "issued c c' = drop (length (calls c)) (calls c')"

text \<open>The attach calls and the rename calls among a list of calls.\<close>

definition is_attach :: "call \<Rightarrow> bool" where
  "is_attach k = (case k of AttachVolumeCall v i \<Rightarrow> True | _ \<Rightarrow> False)"

definition is_rename :: "call \<Rightarrow> bool" where
  "is_rename k = (case k of RenameFirewallCall i n \<Rightarrow> True | _ \<Rightarrow> False)"

text \<open>
  Every operation starts with
  \<^verbatim>\<open>if region, ok := d.GetOk("region"); ok { apiClient.Region = region.(string) }\<close>
\<close>

definition overwrite_region :: "ResourceData \<Rightarrow> Client \<Rightarrow> Client" where
  "overwrite_region d c =
     (case GetOk d ''region'' of
        (region, ok) \<Rightarrow> if ok then c\<lparr>Region := as_string region\<rparr> else c)"

type_synonym op_result = "Client \<times> ResourceData \<times> Diagnostics outcome"

section \<open>Schema declarations\<close>

text \<open>
  A \<open>schema.Schema\<close> with the flags the resources set (a flag left out in the source is
  Go's zero value); the descriptions are documentation and are left out. A
  \<open>schema.Resource\<close> registers its operations by function; the model keeps the name of
  the registered Go function, \<open>None\<close> for a field left \<open>nil\<close>.
\<close>

datatype ValueType = TypeString | TypeBool | TypeSet

datatype validator =
    ValidateName
  | StringInSlice "string list" bool
  | NoZeroValues
  | StringIsNotEmpty

record Schema =
  Type :: ValueType
  Required :: bool
  Optional :: bool
  Computed :: bool
  ForceNew :: bool
  ValidateFunc :: "validator option"
  Elem :: "ValueType option"

record Resource =
  Schema :: "(string \<times> Schema) list"
  CreateContext :: "string option"
  ReadContext :: "string option"
  UpdateContext :: "string option"
  DeleteContext :: "string option"
  Importer :: "string option"

definition resourceFirewallRule :: Resource where
  "resourceFirewallRule =
     \<lparr>Schema =
        [(''firewall_id'',
            \<lparr>Type = TypeString, Required = True, Optional = False, Computed = False, ForceNew = True,
             ValidateFunc = Some ValidateName, Elem = None\<rparr>),
         (''protocol'',
            \<lparr>Type = TypeString, Required = False, Optional = True, Computed = True, ForceNew = True,
             ValidateFunc = Some (StringInSlice [''tcp'', ''udp'', ''icmp''] False), Elem = None\<rparr>),
         (''start_port'',
            \<lparr>Type = TypeString, Required = False, Optional = True, Computed = True, ForceNew = True,
             ValidateFunc = Some NoZeroValues, Elem = None\<rparr>),
         (''end_port'',
            \<lparr>Type = TypeString, Required = False, Optional = True, Computed = True, ForceNew = True,
             ValidateFunc = Some NoZeroValues, Elem = None\<rparr>),
         (''cidr'',
            \<lparr>Type = TypeSet, Required = True, Optional = False, Computed = False, ForceNew = True,
             ValidateFunc = None, Elem = Some TypeString\<rparr>),
         (''direction'',
            \<lparr>Type = TypeString, Required = True, Optional = False, Computed = False, ForceNew = True,
             ValidateFunc = Some (StringInSlice [''ingress'', ''egress''] False), Elem = None\<rparr>),
         (''action'',
            \<lparr>Type = TypeString, Required = True, Optional = False, Computed = False, ForceNew = True,
             ValidateFunc = Some (StringInSlice [''allow'', ''deny''] False), Elem = None\<rparr>),
         (''label'',
            \<lparr>Type = TypeString, Required = False, Optional = True, Computed = True, ForceNew = True,
             ValidateFunc = Some StringIsNotEmpty, Elem = None\<rparr>),
         (''region'',
            \<lparr>Type = TypeString, Required = False, Optional = True, Computed = True, ForceNew = True,
             ValidateFunc = Some StringIsNotEmpty, Elem = None\<rparr>)],
      CreateContext = Some ''resourceFirewallRuleCreate'',
      ReadContext = Some ''resourceFirewallRuleRead'',
      UpdateContext = None,
      DeleteContext = Some ''resourceFirewallRuleDelete'',
      Importer = Some ''resourceFirewallRuleImport''\<rparr>"

section \<open>Firewall rule\<close>

definition resourceFirewallRuleRead :: "api \<Rightarrow> Client \<Rightarrow> ResourceData \<Rightarrow> op_result" where
  "resourceFirewallRuleRead a c d =
     (let c1 = overwrite_region d c;
          firewall_id = as_string (Get d ''firewall_id'');
          c2 = issue c1 (FindFirewallRuleCall firewall_id (Id d))
      in case FindFirewallRule a c1 firewall_id (Id d) of
        (resp, Some err) \<Rightarrow>
          (case resp of
             None \<Rightarrow> (c2, SetId d [], Returned [])
           | Some _ \<Rightarrow> (c2, d, Returned (Errorf (''[ERR] error retrieving firewall rule: '' @ err))))
      | (None, None) \<Rightarrow> (c2, d, NilDeref)
      | (Some resp, None) \<Rightarrow>
          (let d1 = Set_attr d ''firewall_id'' (VString (rule_FirewallID resp));
               d2 = Set_attr d1 ''protocol'' (VString (rule_Protocol resp));
               d3 = Set_attr d2 ''start_port'' (VString (rule_StartPort resp));
               d4 = (if rule_EndPort resp \<noteq> [] then Set_attr d3 ''end_port'' (VString (rule_EndPort resp))
                     else d3);
               d5 = Set_attr d4 ''cidr'' (VSet (rule_Cidr resp));
               d6 = Set_attr d5 ''direction'' (VString (rule_Direction resp));
               d7 = Set_attr d6 ''action'' (VString (rule_Action resp));
               d8 = Set_attr d7 ''label'' (VString (rule_Label resp))
           in (c2, d8, Returned [])))"

definition resourceFirewallRuleDelete :: "api \<Rightarrow> Client \<Rightarrow> ResourceData \<Rightarrow> op_result" where
  "resourceFirewallRuleDelete a c d =
     (let c1 = overwrite_region d c;
          firewall_id = as_string (Get d ''firewall_id'');
          c2 = issue c1 (DeleteFirewallRuleCall firewall_id (Id d))
      in case DeleteFirewallRule a c1 firewall_id (Id d) of
        Some err \<Rightarrow>
          (c2, d, Returned (Errorf (''[ERR] an error occurred while tring to delete firewall rule ''
                                     @ Id d @ '' - '' @ err)))
      | None \<Rightarrow> (c2, d, Returned []))"

text \<open>
  The import returns a slice of resource data and an error. The helper
  \<open>utils.ResourceCommonParseID\<close> is not part of the sources at hand: it is the
  parameter \<open>parseID\<close>, of the helper's Go type \<open>(string, string, error)\<close>.
\<close>

type_synonym import_result = "Client \<times> ResourceData \<times> (ResourceData list \<times> error option) outcome"

definition resourceFirewallRuleImport ::
    "(string \<Rightarrow> string \<times> string \<times> error option) \<Rightarrow> api \<Rightarrow> Client \<Rightarrow> ResourceData \<Rightarrow> import_result" where
  "resourceFirewallRuleImport parseID a c d =
     (let c1 = overwrite_region d c
      in case parseID (Id d) of
        (firewallID, firewallRuleID, Some err) \<Rightarrow> (c1, d, Returned ([], Some err))
      | (firewallID, firewallRuleID, None) \<Rightarrow>
          (let c2 = issue c1 (FindFirewallRuleCall firewallID firewallRuleID)
           in case FindFirewallRule a c1 firewallID firewallRuleID of
             (Some resp, Some err) \<Rightarrow> (c2, d, Returned ([], Some err))
           | (None, _) \<Rightarrow> (c2, d, NilDeref)
           | (Some resp, None) \<Rightarrow>
               (let d0 = SetId d (rule_ID resp);
                    d1 = Set_attr d0 ''firewall_id'' (VString (rule_FirewallID resp));
                    d2 = Set_attr d1 ''protocol'' (VString (rule_Protocol resp));
                    d3 = Set_attr d2 ''start_port'' (VString (rule_StartPort resp));
                    d4 = Set_attr d3 ''end_port'' (VString (rule_EndPort resp));
                    d5 = Set_attr d4 ''cidr'' (VSet (rule_Cidr resp));
                    d6 = Set_attr d5 ''direction'' (VString (rule_Direction resp));
                    d7 = Set_attr d6 ''action'' (VString (rule_Action resp));
                    d8 = Set_attr d7 ''label'' (VString (rule_Label resp))
                in (c2, d8, Returned ([d8], None)))))"

section \<open>Firewall\<close>

definition resourceFirewallRead :: "api \<Rightarrow> Client \<Rightarrow> ResourceData \<Rightarrow> op_result" where
  "resourceFirewallRead a c d =
     (let c1 = overwrite_region d c;
          c2 = issue c1 (FindFirewallCall (Id d))
      in case FindFirewall a c1 (Id d) of
        (resp, Some err) \<Rightarrow>
          (case resp of
             None \<Rightarrow> (c2, SetId d [], Returned [])
           | Some _ \<Rightarrow> (c2, d, Returned (Errorf (''[ERR] error retrieving firewall: '' @ err))))
      | (None, None) \<Rightarrow> (c2, d, NilDeref)
      | (Some resp, None) \<Rightarrow>
          (let d1 = Set_attr d ''name'' (VString (fw_Name resp));
               d2 = Set_attr d1 ''network_id'' (VString (fw_NetworkID resp))
           in (c2, d2, Returned [])))"

definition resourceFirewallUpdate :: "api \<Rightarrow> Client \<Rightarrow> ResourceData \<Rightarrow> op_result" where
  "resourceFirewallUpdate a c d =
     (let c1 = overwrite_region d c
      in if HasChange d ''name'' then
           (if as_string (Get d ''name'') \<noteq> [] then
              (let firewall = \<lparr>cfg_Name = as_string (Get d ''name'')\<rparr>;
                   c2 = issue c1 (RenameFirewallCall (Id d) firewall)
               in case RenameFirewall a c1 (Id d) firewall of
                 Some err \<Rightarrow>
                   (c2, d, Returned (Errorf (''[WARN] an error occurred while tring to rename the firewall ''
                                              @ Id d @ '', '' @ err)))
               | None \<Rightarrow> resourceFirewallRead a c2 d)
            else resourceFirewallRead a c1 d)
         else resourceFirewallRead a c1 d)"

definition resourceFirewallDelete :: "api \<Rightarrow> Client \<Rightarrow> ResourceData \<Rightarrow> op_result" where
  "resourceFirewallDelete a c d =
     (let c1 = overwrite_region d c;
          firewallID = Id d;
          c2 = issue c1 (FindFirewallCall firewallID)
      in case FindFirewall a c1 firewallID of
        (_, Some err) \<Rightarrow> (c2, d, Returned [])
      | (_, None) \<Rightarrow>
          (let c3 = issue c2 (DeleteFirewallCall firewallID)
           in case DeleteFirewall a c2 firewallID of
             Some err \<Rightarrow>
               (c3, d, Returned (Errorf (''[ERR] an error occurred while tring to delete the firewall ''
                                          @ firewallID @ '', '' @ err)))
           | None \<Rightarrow> (c3, d, Returned [])))"

section \<open>Volume attachment\<close>

text \<open>
  \<open>resource.PrefixedUniqueId\<close> of the host SDK appends a timestamp and a counter to
  the prefix; that suffix is the parameter \<open>uniq\<close>.
\<close>

definition PrefixedUniqueId :: "string \<Rightarrow> string \<Rightarrow> string" where
  "PrefixedUniqueId uniq prefix = prefix @ uniq"

definition resourceVolumeAttachmentRead :: "api \<Rightarrow> Client \<Rightarrow> ResourceData \<Rightarrow> op_result" where
  "resourceVolumeAttachmentRead a c d =
     (let c1 = overwrite_region d c;
          instanceID = as_string (Get d ''instance_id'');
          volumeID = as_string (Get d ''volume_id'');
          c2 = issue c1 (FindVolumeCall volumeID)
      in case FindVolume a c1 volumeID of
        (resp, Some err) \<Rightarrow>
          (case resp of
             None \<Rightarrow> (c2, SetId d [], Returned [])
           | Some _ \<Rightarrow> (c2, d, Returned (Errorf (''[ERR] failed retrieving the volume: '' @ err))))
      | (None, None) \<Rightarrow> (c2, d, NilDeref)
      | (Some resp, None) \<Rightarrow>
          (if vol_InstanceID resp = [] \<or> vol_InstanceID resp \<noteq> instanceID
           then (c2, SetId d [], Returned [])
           else (c2, d, Returned [])))"

definition resourceVolumeAttachmentCreate :: "string \<Rightarrow> api \<Rightarrow> Client \<Rightarrow> ResourceData \<Rightarrow> op_result" where
  "resourceVolumeAttachmentCreate uniq a c d =
     (let c1 = overwrite_region d c;
          instanceID = as_string (Get d ''instance_id'');
          volumeID = as_string (Get d ''volume_id'');
          c2 = issue c1 (FindVolumeCall volumeID)
      in case FindVolume a c1 volumeID of
        (_, Some err) \<Rightarrow> (c2, d, Returned (Errorf (''[ERR] Error retrieving volume: '' @ err)))
      | (None, None) \<Rightarrow> (c2, d, NilDeref)
      | (Some volume, None) \<Rightarrow>
          (if vol_InstanceID volume = [] \<or> vol_InstanceID volume \<noteq> instanceID then
             (let c3 = issue c2 (AttachVolumeCall volumeID instanceID)
              in case AttachVolume a c2 volumeID instanceID of
                Some err \<Rightarrow>
                  (c3, d, Returned (Errorf (''[ERR] error attaching volume to instance '' @ err)))
              | None \<Rightarrow>
                  resourceVolumeAttachmentRead a c3
                    (SetId d (PrefixedUniqueId uniq (instanceID @ ''-'' @ volumeID @ ''-''))))
           else
             resourceVolumeAttachmentRead a c2
               (SetId d (PrefixedUniqueId uniq (instanceID @ ''-'' @ volumeID @ ''-'')))))"

definition resourceVolumeAttachmentDelete :: "api \<Rightarrow> Client \<Rightarrow> ResourceData \<Rightarrow> op_result" where
  "resourceVolumeAttachmentDelete a c d =
     (let c1 = overwrite_region d c;
          volumeID = as_string (Get d ''volume_id'');
          c2 = issue c1 (DetachVolumeCall volumeID)
      in case DetachVolume a c1 volumeID of
        Some err \<Rightarrow>
          (c2, d, Returned (Errorf (''[ERR] an error occurred while tring to detach the volume '' @ err)))
      | None \<Rightarrow> (c2, d, Returned []))"

section \<open>Concrete remotes and resources\<close>

text \<open>
  A remote on which nothing exists: every lookup fails with a nil response, and so does
  every delete, rename, attach and detach.
\<close>

definition api_gone :: api where
  "api_gone =
     \<lparr>FindFirewallRule = (\<lambda>c f r. (None, Some ''not found'')),
      DeleteFirewallRule = (\<lambda>c f r. Some ''not found''),
      FindFirewall = (\<lambda>c i. (None, Some ''not found'')),
      RenameFirewall = (\<lambda>c i n. Some ''not found''),
      DeleteFirewall = (\<lambda>c i. Some ''not found''),
      FindVolume = (\<lambda>c v. (None, Some ''not found'')),
      AttachVolume = (\<lambda>c v i. Some ''not found''),
      DetachVolume = (\<lambda>c v. Some ''not found'')\<rparr>"

text \<open>
  A remote that holds one rule \<open>r1\<close> of firewall \<open>fw1\<close>, and volumes that are
  attached as the latest attach or detach call issued for them says (\<open>attached_to\<close>
  reads the log latest call first).
\<close>

definition rule1 :: FirewallRule where
  "rule1 =
     \<lparr>rule_ID = ''r1'', rule_FirewallID = ''fw1'', rule_Protocol = ''tcp'', rule_StartPort = ''80'',
      rule_EndPort = [], rule_Cidr = [''0.0.0.0/0''], rule_Direction = ''ingress'',
      rule_Action = ''allow'', rule_Label = ''web''\<rparr>"

fun attached_to :: "string \<Rightarrow> call list \<Rightarrow> string" where
  "attached_to v [] = []"
| "attached_to v (k # ks) =
     (case k of
        AttachVolumeCall v' i \<Rightarrow> if v' = v then i else attached_to v ks
      | DetachVolumeCall v' \<Rightarrow> if v' = v then [] else attached_to v ks
      | _ \<Rightarrow> attached_to v ks)"

definition api_live :: api where
  "api_live =
     \<lparr>FindFirewallRule = (\<lambda>c f r. if f = ''fw1'' \<and> r = ''r1'' then (Some rule1, None)
                                    else (None, Some ''not found'')),
      DeleteFirewallRule = (\<lambda>c f r. None),
      FindFirewall = (\<lambda>c i. (Some \<lparr>fw_ID = i, fw_Name = ''web'', fw_NetworkID = ''n1''\<rparr>, None)),
      RenameFirewall = (\<lambda>c i n. None),
      DeleteFirewall = (\<lambda>c i. None),
      FindVolume = (\<lambda>c v. (Some \<lparr>vol_ID = v, vol_InstanceID = attached_to v (rev (calls c))\<rparr>, None)),
      AttachVolume = (\<lambda>c v i. None),
      DetachVolume = (\<lambda>c v. None)\<rparr>"

text \<open>
  The live remote with an attachment that does not show yet: the attach call succeeds,
  and the lookup of the volume still reports no instance.
\<close>

definition api_pending :: api where
  "api_pending = api_live\<lparr>FindVolume := \<lambda>c v. (Some \<lparr>vol_ID = v, vol_InstanceID = []\<rparr>, None)\<rparr>"

definition c0 :: Client where
  "c0 = \<lparr>Region = ''LON1'', calls = []\<rparr>"

definition d_rule :: ResourceData where
  "d_rule =
     \<lparr>Id = ''r1'',
      attrs = (\<lambda>k. VString [])(''firewall_id'' := VString ''fw1'', ''end_port'' := VString ''443''),
      old_attrs = (\<lambda>k. VString [])\<rparr>"

definition d_firewall :: ResourceData where
  "d_firewall =
     \<lparr>Id = ''fw1'',
      attrs = (\<lambda>k. VString [])(''name'' := VString ''web''),
      old_attrs = (\<lambda>k. VString [])(''name'' := VString ''old'')\<rparr>"

definition d_attachment :: ResourceData where
  "d_attachment =
     \<lparr>Id = [],
      attrs = (\<lambda>k. VString [])(''instance_id'' := VString ''i1'', ''volume_id'' := VString ''v1''),
      old_attrs = (\<lambda>k. VString [])\<rparr>"

definition d_import :: ResourceData where
  "d_import = \<lparr>Id = ''fw1:r1'', attrs = (\<lambda>k. VString []), old_attrs = (\<lambda>k. VString [])\<rparr>"

text \<open>\<open>utils.ResourceCommonParseID\<close> at two identifiers: one it splits, one it rejects.\<close>

definition parse_two :: "string \<Rightarrow> string \<times> string \<times> error option" where
  "parse_two s = (if s = ''fw1:r1'' then (''fw1'', ''r1'', None) else ([], [], Some ''unexpected format of ID''))"

section \<open>Basic facts about the state\<close>

lemma calls_overwrite_region: "calls (overwrite_region d c) = calls c"
  by (simp add: overwrite_region_def GetOk_def)

lemma overwrite_region_idem: "overwrite_region d (overwrite_region d c) = overwrite_region d c"
  by (simp add: overwrite_region_def GetOk_def)

lemma overwrite_region_issue: "overwrite_region d (issue c k) = issue (overwrite_region d c) k"
  by (simp add: overwrite_region_def GetOk_def issue_def)

lemma overwrite_region_SetId: "overwrite_region (SetId d v) c = overwrite_region d c"
  by (simp add: overwrite_region_def GetOk_def SetId_def)

lemma Get_SetId: "Get (SetId d v) k = Get d k"
  by (simp add: Get_def SetId_def)

lemma Id_SetId: "Id (SetId d v) = v"
  by (simp add: SetId_def)

lemma Id_Set_attr: "Id (Set_attr d k v) = Id d"
  by (simp add: Set_attr_def)

lemma Get_Set_attr: "Get (Set_attr d k v) k' = (if k' = k then v else Get d k')"
  by (simp add: Get_def Set_attr_def)

lemma issued_refl: "issued c c = []"
  by (simp add: issued_def)

lemma issued_overwrite_region: "issued c (overwrite_region d c') = issued c c'"
  by (simp add: issued_def calls_overwrite_region)

lemma issued_issue1: "issued c (issue (overwrite_region d c) k) = [k]"
  by (simp add: issued_def issue_def calls_overwrite_region)

lemma issued_issue2: "issued c (issue (issue (overwrite_region d c) k) k') = [k, k']"
  by (simp add: issued_def issue_def calls_overwrite_region)

lemma issued_issue3:
  "issued c (issue (issue (issue (overwrite_region d c) k) k') k'') = [k, k', k'']"
  by (simp add: issued_def issue_def calls_overwrite_region)

lemmas fixture_defs = api_gone_def api_live_def c0_def d_rule_def d_firewall_def d_attachment_def
  d_import_def parse_two_def rule1_def api_pending_def

lemmas model_defs = overwrite_region_def GetOk_def Get_def is_zero_def as_string_def Set_attr_def
  SetId_def HasChange_def Errorf_def issue_def issued_def PrefixedUniqueId_def Let_def

section \<open>What the reads and the create log and return\<close>

lemma fst_resourceFirewallRead:
  "fst (resourceFirewallRead a c d) = issue (overwrite_region d c) (FindFirewallCall (Id d))"
  by (simp add: resourceFirewallRead_def Let_def split: prod.splits option.splits)

lemma fst_resourceVolumeAttachmentRead:
  "fst (resourceVolumeAttachmentRead a c d) =
     issue (overwrite_region d c) (FindVolumeCall (as_string (Get d ''volume_id'')))"
  by (simp add: resourceVolumeAttachmentRead_def Let_def split: prod.splits option.splits)

lemma resourceFirewallRead_overwritten:
  "resourceFirewallRead a (overwrite_region d c) d = resourceFirewallRead a c d"
  by (simp add: resourceFirewallRead_def overwrite_region_idem)

lemma resourceVolumeAttachmentRead_returned:
  assumes "resourceVolumeAttachmentRead a c d = (c', d', Returned [])"
  shows "c' = issue (overwrite_region d c) (FindVolumeCall (as_string (Get d ''volume_id''))) \<and>
         d' = (if \<exists>w. FindVolume a (overwrite_region d c) (as_string (Get d ''volume_id'')) =
                         (Some w, None) \<and>
                       vol_InstanceID w = as_string (Get d ''instance_id'') \<and> vol_InstanceID w \<noteq> []
               then d else SetId d [])"
  using assms
  by (auto simp add: resourceVolumeAttachmentRead_def Let_def Errorf_def
        split: prod.splits option.splits if_splits)

lemma resourceVolumeAttachmentCreate_found:
  assumes "FindVolume a (overwrite_region d c) (as_string (Get d ''volume_id'')) = (Some v, None)"
  shows "resourceVolumeAttachmentCreate uniq a c d =
     (if vol_InstanceID v = [] \<or> vol_InstanceID v \<noteq> as_string (Get d ''instance_id'') then
        (case AttachVolume a (issue (overwrite_region d c) (FindVolumeCall (as_string (Get d ''volume_id''))))
                (as_string (Get d ''volume_id'')) (as_string (Get d ''instance_id'')) of
           Some err \<Rightarrow>
             (issue (issue (overwrite_region d c) (FindVolumeCall (as_string (Get d ''volume_id''))))
                (AttachVolumeCall (as_string (Get d ''volume_id'')) (as_string (Get d ''instance_id''))),
              d, Returned (Errorf (''[ERR] error attaching volume to instance '' @ err)))
         | None \<Rightarrow>
             resourceVolumeAttachmentRead a
               (issue (issue (overwrite_region d c) (FindVolumeCall (as_string (Get d ''volume_id''))))
                  (AttachVolumeCall (as_string (Get d ''volume_id'')) (as_string (Get d ''instance_id''))))
               (SetId d (as_string (Get d ''instance_id'') @ ''-'' @ as_string (Get d ''volume_id'')
                         @ ''-'' @ uniq)))
      else
        resourceVolumeAttachmentRead a
          (issue (overwrite_region d c) (FindVolumeCall (as_string (Get d ''volume_id''))))
          (SetId d (as_string (Get d ''instance_id'') @ ''-'' @ as_string (Get d ''volume_id'')
                    @ ''-'' @ uniq)))"
  using assms
  by (simp add: resourceVolumeAttachmentCreate_def Let_def PrefixedUniqueId_def split: option.splits)

section \<open>The claims\<close>

subsection \<open>Delete and a missing remote counterpart\<close>

text \<open>
  Claim C1, as the code has it. Only the firewall delete checks for existence: when its
  lookup \<open>FindFirewall\<close> returns an error it returns no diagnostic, leaves the resource
  data alone and issues no delete call. The firewall rule delete and the volume
  attachment delete make no lookup: each issues exactly one remote call (delete rule,
  detach volume), always returns, and returns no diagnostic exactly when that call
  returned no error.
\<close>

theorem delete_existence_check:
  "(snd (FindFirewall a (overwrite_region d c) (Id d)) \<noteq> None \<longrightarrow>
      (case resourceFirewallDelete a c d of (c', d', out) \<Rightarrow>
         out = Returned [] \<and> d' = d \<and> issued c c' = [FindFirewallCall (Id d)])) \<and>
   (case resourceFirewallRuleDelete a c d of (c', d', out) \<Rightarrow>
      issued c c' = [DeleteFirewallRuleCall (as_string (Get d ''firewall_id'')) (Id d)] \<and>
      (out = Returned [] \<longleftrightarrow>
         DeleteFirewallRule a (overwrite_region d c) (as_string (Get d ''firewall_id'')) (Id d) = None) \<and>
      (\<exists>ds. out = Returned ds)) \<and>
   (case resourceVolumeAttachmentDelete a c d of (c', d', out) \<Rightarrow>
      issued c c' = [DetachVolumeCall (as_string (Get d ''volume_id''))] \<and>
      (out = Returned [] \<longleftrightarrow>
         DetachVolume a (overwrite_region d c) (as_string (Get d ''volume_id'')) = None) \<and>
      (\<exists>ds. out = Returned ds))"
  by (auto simp add: resourceFirewallDelete_def resourceFirewallRuleDelete_def
        resourceVolumeAttachmentDelete_def Let_def issued_issue1 Errorf_def
        split: prod.splits option.splits)

text \<open>The three deletes run: on the remote where nothing exists, and on the live one.\<close>

theorem delete_existence_check_witness:
  "snd (FindFirewall api_gone (overwrite_region d_firewall c0) (Id d_firewall)) \<noteq> None \<and>
   resourceFirewallDelete api_gone c0 d_firewall =
     (c0\<lparr>calls := [FindFirewallCall ''fw1'']\<rparr>, d_firewall, Returned []) \<and>
   resourceFirewallRuleDelete api_live c0 d_rule =
     (c0\<lparr>calls := [DeleteFirewallRuleCall ''fw1'' ''r1'']\<rparr>, d_rule, Returned []) \<and>
   resourceVolumeAttachmentDelete api_live c0 d_attachment =
     (c0\<lparr>calls := [DetachVolumeCall ''v1'']\<rparr>, d_attachment, Returned [])"
  using delete_existence_check [where a = api_gone and c = c0 and d = d_firewall]
  by (simp add: resourceFirewallDelete_def resourceFirewallRuleDelete_def
        resourceVolumeAttachmentDelete_def fixture_defs model_defs)

text \<open>
  The claim as it is written fails for the firewall rule: on the remote where nothing
  exists, where the lookup of the rule answers not found, the delete returns an error
  diagnostic.
\<close>

theorem delete_counterexample:
  "FindFirewallRule api_gone (overwrite_region d_rule c0) ''fw1'' ''r1'' = (None, Some ''not found'') \<and>
   snd (snd (resourceFirewallRuleDelete api_gone c0 d_rule)) =
     Returned [''[ERR] an error occurred while tring to delete firewall rule r1 - not found'']"
  by (simp add: resourceFirewallRuleDelete_def api_gone_def d_rule_def c0_def Let_def Get_def
        as_string_def Errorf_def)

subsection \<open>Read and a failed lookup\<close>

text \<open>
  Claim C2. In each of the three reads, when the lookup returns an error: with a nil
  response the read empties the identifier and returns no diagnostic; with a non-nil
  response it returns an error diagnostic and the identifier is the one it had.
\<close>

theorem read_lookup_failure:
  "(FindFirewallRule a (overwrite_region d c) (as_string (Get d ''firewall_id'')) (Id d) = (r1, Some e1) \<longrightarrow>
      (case resourceFirewallRuleRead a c d of (c', d', out) \<Rightarrow>
         if r1 = None then Id d' = [] \<and> out = Returned []
         else Id d' = Id d \<and> (\<exists>msg. out = Returned (Errorf msg)))) \<and>
   (FindFirewall a (overwrite_region d c) (Id d) = (r2, Some e2) \<longrightarrow>
      (case resourceFirewallRead a c d of (c', d', out) \<Rightarrow>
         if r2 = None then Id d' = [] \<and> out = Returned []
         else Id d' = Id d \<and> (\<exists>msg. out = Returned (Errorf msg)))) \<and>
   (FindVolume a (overwrite_region d c) (as_string (Get d ''volume_id'')) = (r3, Some e3) \<longrightarrow>
      (case resourceVolumeAttachmentRead a c d of (c', d', out) \<Rightarrow>
         if r3 = None then Id d' = [] \<and> out = Returned []
         else Id d' = Id d \<and> (\<exists>msg. out = Returned (Errorf msg))))"
  by (auto simp add: resourceFirewallRuleRead_def resourceFirewallRead_def
        resourceVolumeAttachmentRead_def Let_def Id_SetId)

text \<open>
  The three reads on the remote where nothing exists, and the rule read on a remote
  whose lookup fails but hands out a rule.
\<close>

theorem read_lookup_failure_witness:
  "FindFirewallRule api_gone (overwrite_region d_rule c0) (as_string (Get d_rule ''firewall_id''))
     (Id d_rule) = (None, Some ''not found'') \<and>
   FindFirewall api_gone (overwrite_region d_rule c0) (Id d_rule) = (None, Some ''not found'') \<and>
   FindVolume api_gone (overwrite_region d_rule c0) (as_string (Get d_rule ''volume_id'')) =
     (None, Some ''not found'') \<and>
   Id (fst (snd (resourceFirewallRuleRead api_gone c0 d_rule))) = [] \<and>
   snd (snd (resourceFirewallRuleRead api_gone c0 d_rule)) = Returned [] \<and>
   Id (fst (snd (resourceFirewallRead api_gone c0 d_rule))) = [] \<and>
   snd (snd (resourceFirewallRead api_gone c0 d_rule)) = Returned [] \<and>
   Id (fst (snd (resourceVolumeAttachmentRead api_gone c0 d_rule))) = [] \<and>
   snd (snd (resourceVolumeAttachmentRead api_gone c0 d_rule)) = Returned [] \<and>
   FindFirewallRule (api_gone\<lparr>FindFirewallRule := \<lambda>c f r. (Some rule1, Some ''timeout'')\<rparr>)
     (overwrite_region d_rule c0) (as_string (Get d_rule ''firewall_id'')) (Id d_rule) =
     (Some rule1, Some ''timeout'') \<and>
   Id (fst (snd (resourceFirewallRuleRead
                   (api_gone\<lparr>FindFirewallRule := \<lambda>c f r. (Some rule1, Some ''timeout'')\<rparr>)
                   c0 d_rule))) = ''r1'' \<and>
   snd (snd (resourceFirewallRuleRead
               (api_gone\<lparr>FindFirewallRule := \<lambda>c f r. (Some rule1, Some ''timeout'')\<rparr>)
               c0 d_rule)) \<noteq> Returned []"
  using read_lookup_failure [where a = api_gone and c = c0 and d = d_rule and ?r1.0 = None
      and ?r2.0 = None and ?r3.0 = None and ?e1.0 = "''not found''" and ?e2.0 = "''not found''"
      and ?e3.0 = "''not found''"]
    read_lookup_failure [where a = "api_gone\<lparr>FindFirewallRule := \<lambda>c f r. (Some rule1, Some ''timeout'')\<rparr>"
      and c = c0 and d = d_rule and ?r1.0 = "Some rule1" and ?e1.0 = "''timeout''",
      THEN conjunct1]
  by (auto simp add: api_gone_def d_rule_def Errorf_def split: prod.splits)

subsection \<open>Volume attachment create and the attach call\<close>

text \<open>
  Claim C3. When the lookup of the volume succeeds, the create issues the attach call
  (once, for the volume and the instance of the resource) exactly when the volume's
  instance pointer is empty or differs from \<open>instance_id\<close>, and no attach call
  otherwise. When the volume is already attached to the instance, the create is the
  read refresh of the resource data with the synthesized identifier set, run right
  after the lookup.
\<close>

theorem create_attach_call:
  assumes "FindVolume a (overwrite_region d c) (as_string (Get d ''volume_id'')) = (Some v, None)"
  shows "(case resourceVolumeAttachmentCreate uniq a c d of (c', d', out) \<Rightarrow>
            filter is_attach (issued c c') =
              (if vol_InstanceID v = [] \<or> vol_InstanceID v \<noteq> as_string (Get d ''instance_id'')
               then [AttachVolumeCall (as_string (Get d ''volume_id'')) (as_string (Get d ''instance_id''))]
               else [])) \<and>
         (vol_InstanceID v = as_string (Get d ''instance_id'') \<and> vol_InstanceID v \<noteq> [] \<longrightarrow>
            resourceVolumeAttachmentCreate uniq a c d =
              resourceVolumeAttachmentRead a
                (issue (overwrite_region d c) (FindVolumeCall (as_string (Get d ''volume_id''))))
                (SetId d (as_string (Get d ''instance_id'') @ ''-'' @ as_string (Get d ''volume_id'')
                          @ ''-'' @ uniq)))"
proof -
  let ?vid = "as_string (Get d ''volume_id'')"
  let ?iid = "as_string (Get d ''instance_id'')"
  let ?c1 = "overwrite_region d c"
  let ?d1 = "SetId d (?iid @ ''-'' @ ?vid @ ''-'' @ uniq)"
  let ?create = "resourceVolumeAttachmentCreate uniq a c d"
  note rd = fst_resourceVolumeAttachmentRead overwrite_region_SetId Get_SetId
    overwrite_region_issue overwrite_region_idem
  note found = resourceVolumeAttachmentCreate_found [OF assms, of uniq]
  show ?thesis
  proof (cases "vol_InstanceID v = [] \<or> vol_InstanceID v \<noteq> ?iid")
    case True
    show ?thesis
    proof (cases "AttachVolume a (issue ?c1 (FindVolumeCall ?vid)) ?vid ?iid")
      case None
      have "?create =
              resourceVolumeAttachmentRead a
                (issue (issue ?c1 (FindVolumeCall ?vid)) (AttachVolumeCall ?vid ?iid)) ?d1"
        unfolding found if_P [OF True] None by simp
      then have "fst ?create =
                   issue (issue (issue ?c1 (FindVolumeCall ?vid)) (AttachVolumeCall ?vid ?iid))
                     (FindVolumeCall ?vid)"
        by (simp only: rd)
      then have "issued c (fst ?create) =
                   [FindVolumeCall ?vid, AttachVolumeCall ?vid ?iid, FindVolumeCall ?vid]"
        by (simp only: issued_issue3)
      with True show ?thesis
        by (auto simp add: is_attach_def split: prod.splits)
    next
      case (Some err)
      have "fst ?create = issue (issue ?c1 (FindVolumeCall ?vid)) (AttachVolumeCall ?vid ?iid)"
        unfolding found if_P [OF True] Some by simp
      then have "issued c (fst ?create) = [FindVolumeCall ?vid, AttachVolumeCall ?vid ?iid]"
        by (simp only: issued_issue2)
      with True show ?thesis
        by (auto simp add: is_attach_def split: prod.splits)
    qed
  next
    case False
    have eq: "?create = resourceVolumeAttachmentRead a (issue ?c1 (FindVolumeCall ?vid)) ?d1"
      unfolding found by (rule if_not_P [OF False])
    then have "fst ?create = issue (issue ?c1 (FindVolumeCall ?vid)) (FindVolumeCall ?vid)"
      by (simp only: rd)
    then have "issued c (fst ?create) = [FindVolumeCall ?vid, FindVolumeCall ?vid]"
      by (simp only: issued_issue2)
    with False eq show ?thesis
      by (auto simp add: is_attach_def split: prod.splits)
  qed
qed

text \<open>
  Two creates on the live remote: one whose volume is not attached yet, and one whose
  volume is already attached to the instance.
\<close>

theorem create_attach_call_witness:
  "FindVolume api_live (overwrite_region d_attachment c0) (as_string (Get d_attachment ''volume_id'')) =
     (Some \<lparr>vol_ID = ''v1'', vol_InstanceID = []\<rparr>, None) \<and>
   filter is_attach (issued c0 (fst (resourceVolumeAttachmentCreate ''001'' api_live c0 d_attachment))) =
     [AttachVolumeCall ''v1'' ''i1''] \<and>
   Id (fst (snd (resourceVolumeAttachmentCreate ''001'' api_live c0 d_attachment))) = ''i1-v1-001'' \<and>
   FindVolume api_live (overwrite_region d_attachment (c0\<lparr>calls := [AttachVolumeCall ''v1'' ''i1'']\<rparr>))
       (as_string (Get d_attachment ''volume_id'')) =
     (Some \<lparr>vol_ID = ''v1'', vol_InstanceID = ''i1''\<rparr>, None) \<and>
   filter is_attach
       (issued (c0\<lparr>calls := [AttachVolumeCall ''v1'' ''i1'']\<rparr>)
          (fst (resourceVolumeAttachmentCreate ''002'' api_live
                  (c0\<lparr>calls := [AttachVolumeCall ''v1'' ''i1'']\<rparr>) d_attachment))) = [] \<and>
   Id (fst (snd (resourceVolumeAttachmentCreate ''002'' api_live
                   (c0\<lparr>calls := [AttachVolumeCall ''v1'' ''i1'']\<rparr>) d_attachment))) = ''i1-v1-002''"
proof -
  let ?c = "c0\<lparr>calls := [AttachVolumeCall ''v1'' ''i1'']\<rparr>"
  have h: "FindVolume api_live (overwrite_region d_attachment c0)
             (as_string (Get d_attachment ''volume_id'')) =
           (Some \<lparr>vol_ID = ''v1'', vol_InstanceID = []\<rparr>, None)"
    by (simp add: fixture_defs model_defs)
  have i: "Id (fst (snd (resourceVolumeAttachmentCreate ''001'' api_live c0 d_attachment))) = ''i1-v1-001''"
    by (simp add: resourceVolumeAttachmentCreate_def resourceVolumeAttachmentRead_def
          fixture_defs model_defs)
  have h': "FindVolume api_live (overwrite_region d_attachment ?c)
              (as_string (Get d_attachment ''volume_id'')) =
            (Some \<lparr>vol_ID = ''v1'', vol_InstanceID = ''i1''\<rparr>, None)"
    by (simp add: fixture_defs model_defs)
  have i': "Id (fst (snd (resourceVolumeAttachmentCreate ''002'' api_live ?c d_attachment))) = ''i1-v1-002''"
    by (simp add: resourceVolumeAttachmentCreate_def resourceVolumeAttachmentRead_def
          fixture_defs model_defs)
  from create_attach_call [OF h, of "''001''", THEN conjunct1]
    create_attach_call [OF h', of "''002''", THEN conjunct1] h i h' i'
  show ?thesis
    by (simp add: d_attachment_def Get_def as_string_def split: prod.splits)
qed

subsection \<open>Firewall update and the rename call\<close>

text \<open>
  Claim C4. The update issues a rename call (once, for the firewall's identifier and
  the new name) exactly when \<open>name\<close> has changed and is not empty. Otherwise it
  issues no rename call: it is the read refresh, whose only remote call is the lookup
  of the firewall.
\<close>

theorem update_rename_call:
  "(case resourceFirewallUpdate a c d of (c', d', out) \<Rightarrow>
      filter is_rename (issued c c') =
        (if HasChange d ''name'' \<and> as_string (Get d ''name'') \<noteq> []
         then [RenameFirewallCall (Id d) \<lparr>cfg_Name = as_string (Get d ''name'')\<rparr>]
         else [])) \<and>
   (\<not> (HasChange d ''name'' \<and> as_string (Get d ''name'') \<noteq> []) \<longrightarrow>
      resourceFirewallUpdate a c d = resourceFirewallRead a c d \<and>
      issued c (fst (resourceFirewallUpdate a c d)) = [FindFirewallCall (Id d)])"
proof -
  let ?cfg = "\<lparr>cfg_Name = as_string (Get d ''name'')\<rparr>"
  let ?c1 = "overwrite_region d c"
  show ?thesis
  proof (cases "HasChange d ''name'' \<and> as_string (Get d ''name'') \<noteq> []")
    case True
    show ?thesis
    proof (cases "RenameFirewall a ?c1 (Id d) ?cfg")
      case None
      have "resourceFirewallUpdate a c d =
              resourceFirewallRead a (issue ?c1 (RenameFirewallCall (Id d) ?cfg)) d"
        using True None by (simp add: resourceFirewallUpdate_def Let_def)
      then have "issued c (fst (resourceFirewallUpdate a c d)) =
                   [RenameFirewallCall (Id d) ?cfg, FindFirewallCall (Id d)]"
        by (simp add: fst_resourceFirewallRead overwrite_region_issue overwrite_region_idem
              issued_issue2)
      with True show ?thesis
        by (auto simp add: is_rename_def split: prod.splits)
    next
      case (Some err)
      have "fst (resourceFirewallUpdate a c d) = issue ?c1 (RenameFirewallCall (Id d) ?cfg)"
        using True Some by (simp add: resourceFirewallUpdate_def Let_def)
      then have "issued c (fst (resourceFirewallUpdate a c d)) = [RenameFirewallCall (Id d) ?cfg]"
        by (simp add: issued_issue1)
      with True show ?thesis
        by (auto simp add: is_rename_def split: prod.splits)
    qed
  next
    case False
    then have eq: "resourceFirewallUpdate a c d = resourceFirewallRead a c d"
      by (auto simp add: resourceFirewallUpdate_def Let_def resourceFirewallRead_overwritten)
    then have "issued c (fst (resourceFirewallUpdate a c d)) = [FindFirewallCall (Id d)]"
      by (simp add: fst_resourceFirewallRead issued_issue1)
    with False eq show ?thesis
      by (auto simp add: is_rename_def split: prod.splits)
  qed
qed

text \<open>An update with a changed name, and one with the name unchanged.\<close>

theorem update_rename_call_witness:
  "HasChange d_firewall ''name'' \<and> as_string (Get d_firewall ''name'') \<noteq> [] \<and>
   filter is_rename (issued c0 (fst (resourceFirewallUpdate api_live c0 d_firewall))) =
     [RenameFirewallCall ''fw1'' \<lparr>cfg_Name = ''web''\<rparr>] \<and>
   \<not> (HasChange d_rule ''name'' \<and> as_string (Get d_rule ''name'') \<noteq> []) \<and>
   resourceFirewallUpdate api_live c0 d_rule = resourceFirewallRead api_live c0 d_rule \<and>
   issued c0 (fst (resourceFirewallUpdate api_live c0 d_rule)) = [FindFirewallCall ''r1'']"
  using update_rename_call [where a = api_live and c = c0 and d = d_firewall]
    update_rename_call [where a = api_live and c = c0 and d = d_rule]
  by (simp add: d_firewall_def d_rule_def HasChange_def Get_def as_string_def split: prod.splits)

subsection \<open>The firewall rule schema\<close>

text \<open>
  Claim C5. The schema of the firewall rule declares the nine fields \<open>firewall_id\<close>,
  \<open>protocol\<close>, \<open>start_port\<close>, \<open>end_port\<close>, \<open>cidr\<close>, \<open>direction\<close>,
  \<open>action\<close>, \<open>label\<close> and \<open>region\<close>, each of them \<open>ForceNew\<close>, and the resource
  registers no update operation.
\<close>

theorem firewall_rule_immutable:
  "map (\<lambda>(k, f). (k, ForceNew f)) (Schema resourceFirewallRule) =
     [(''firewall_id'', True), (''protocol'', True), (''start_port'', True), (''end_port'', True),
      (''cidr'', True), (''direction'', True), (''action'', True), (''label'', True),
      (''region'', True)] \<and>
   UpdateContext resourceFirewallRule = None"
  by (simp add: resourceFirewallRule_def)

text \<open>The same, field by field.\<close>

theorem firewall_rule_immutable_witness:
  "map fst (Schema resourceFirewallRule) =
     [''firewall_id'', ''protocol'', ''start_port'', ''end_port'', ''cidr'', ''direction'',
      ''action'', ''label'', ''region''] \<and>
   list_all (\<lambda>(k, f). ForceNew f) (Schema resourceFirewallRule) \<and>
   UpdateContext resourceFirewallRule = None"
proof -
  have "map fst (Schema resourceFirewallRule) =
          map fst (map (\<lambda>(k, f). (k, ForceNew f)) (Schema resourceFirewallRule))"
    by (simp add: case_prod_unfold comp_def)
  moreover have "list_all (\<lambda>(k, f). ForceNew f) (Schema resourceFirewallRule) =
          list_all snd (map (\<lambda>(k, f). (k, ForceNew f)) (Schema resourceFirewallRule))"
    by (simp add: list_all_iff case_prod_unfold)
  ultimately show ?thesis
    using firewall_rule_immutable by simp
qed

subsection \<open>Firewall rule import\<close>

text \<open>
  Claim C6. The import parses the identifier into a firewall identifier and a rule
  identifier. When the parse fails, the import returns that error with no resource
  data, leaves the resource data as it was and issues no remote call. When the parse
  succeeds and the lookup of these two identifiers returns a rule and no error, the
  import returns the resource data, whose identifier and fields \<open>firewall_id\<close>,
  \<open>protocol\<close>, \<open>start_port\<close>, \<open>end_port\<close>, \<open>cidr\<close>, \<open>direction\<close>,
  \<open>action\<close> and \<open>label\<close> are the rule's.
\<close>

theorem import_populates_state:
  "(parseID (Id d) = (f, r, Some e) \<longrightarrow>
      (case resourceFirewallRuleImport parseID a c d of (c', d', out) \<Rightarrow>
         out = Returned ([], Some e) \<and> d' = d \<and> issued c c' = [])) \<and>
   (parseID (Id d) = (f, r, None) \<and>
    FindFirewallRule a (overwrite_region d c) f r = (Some resp, None) \<longrightarrow>
      (case resourceFirewallRuleImport parseID a c d of (c', d', out) \<Rightarrow>
         out = Returned ([d'], None) \<and>
         issued c c' = [FindFirewallRuleCall f r] \<and>
         Id d' = rule_ID resp \<and>
         Get d' ''firewall_id'' = VString (rule_FirewallID resp) \<and>
         Get d' ''protocol'' = VString (rule_Protocol resp) \<and>
         Get d' ''start_port'' = VString (rule_StartPort resp) \<and>
         Get d' ''end_port'' = VString (rule_EndPort resp) \<and>
         Get d' ''cidr'' = VSet (rule_Cidr resp) \<and>
         Get d' ''direction'' = VString (rule_Direction resp) \<and>
         Get d' ''action'' = VString (rule_Action resp) \<and>
         Get d' ''label'' = VString (rule_Label resp)))"
  by (simp add: resourceFirewallRuleImport_def Let_def issued_issue1 issued_overwrite_region
        issued_refl Get_Set_attr Id_Set_attr Id_SetId)

text \<open>An identifier that does not parse, and the import of rule \<open>r1\<close>.\<close>

theorem import_populates_state_witness:
  "parse_two (Id (d_import\<lparr>Id := ''bad''\<rparr>)) = ([], [], Some ''unexpected format of ID'') \<and>
   resourceFirewallRuleImport parse_two api_live c0 (d_import\<lparr>Id := ''bad''\<rparr>) =
     (c0, d_import\<lparr>Id := ''bad''\<rparr>, Returned ([], Some ''unexpected format of ID'')) \<and>
   parse_two (Id d_import) = (''fw1'', ''r1'', None) \<and>
   FindFirewallRule api_live (overwrite_region d_import c0) ''fw1'' ''r1'' =
     (Some rule1, None) \<and>
   Id (fst (snd (resourceFirewallRuleImport parse_two api_live c0 d_import))) =
     ''r1'' \<and>
   Get (fst (snd (resourceFirewallRuleImport parse_two api_live c0 d_import)))
     ''firewall_id'' = VString ''fw1'' \<and>
   Get (fst (snd (resourceFirewallRuleImport parse_two api_live c0 d_import)))
     ''cidr'' = VSet [''0.0.0.0/0'']"
proof -
  have p1: "parse_two (Id (d_import\<lparr>Id := ''bad''\<rparr>)) = ([], [], Some ''unexpected format of ID'')"
    by (simp add: parse_two_def)
  have p2: "parse_two (Id d_import) = (''fw1'', ''r1'', None)"
    by (simp add: parse_two_def d_import_def)
  have l2: "FindFirewallRule api_live (overwrite_region d_import c0)
              ''fw1'' ''r1'' = (Some rule1, None)"
    by (simp add: api_live_def)
  have o1: "overwrite_region (d_import\<lparr>Id := ''bad''\<rparr>) c0 = c0"
    by (simp add: d_import_def model_defs)
  from import_populates_state [where parseID = parse_two and a = api_live and c = c0
      and d = "d_import\<lparr>Id := ''bad''\<rparr>", THEN conjunct1, rule_format, OF p1]
    import_populates_state [where parseID = parse_two and a = api_live and c = c0
      and d = "d_import" and resp = rule1, THEN conjunct2, rule_format,
      OF conjI [OF p2 l2]]
    p1 p2 l2
  show ?thesis
    by (auto simp add: rule1_def resourceFirewallRuleImport_def o1 Let_def split: prod.splits)
qed

subsection \<open>Volume attachment read\<close>

text \<open>
  Claim C7. A volume attachment read that returns no diagnostic and leaves a non-empty
  identifier has looked up, without error, a volume whose instance pointer is the
  resource's \<open>instance_id\<close> (and is not empty). When the lookup succeeds with a
  volume whose instance pointer is empty or differs from \<open>instance_id\<close>, the read
  empties the identifier and returns no diagnostic.
\<close>

theorem attachment_read_invariant:
  "(resourceVolumeAttachmentRead a c d = (c', d', Returned []) \<and> Id d' \<noteq> [] \<longrightarrow>
      (\<exists>v. FindVolume a (overwrite_region d c) (as_string (Get d ''volume_id'')) = (Some v, None) \<and>
           vol_InstanceID v = as_string (Get d ''instance_id'') \<and> vol_InstanceID v \<noteq> [])) \<and>
   (FindVolume a (overwrite_region d c) (as_string (Get d ''volume_id'')) = (Some w, None) \<and>
    (vol_InstanceID w = [] \<or> vol_InstanceID w \<noteq> as_string (Get d ''instance_id'')) \<longrightarrow>
      (case resourceVolumeAttachmentRead a c d of (c'', d'', out) \<Rightarrow>
         Id d'' = [] \<and> out = Returned []))"
  by (auto simp add: resourceVolumeAttachmentRead_def Let_def Id_SetId Errorf_def
        split: prod.splits option.splits if_splits)

text \<open>A read of a detached volume, and one of the volume attached to the instance.\<close>

theorem attachment_read_invariant_witness:
  "FindVolume api_live (overwrite_region d_attachment c0) (as_string (Get d_attachment ''volume_id'')) =
     (Some \<lparr>vol_ID = ''v1'', vol_InstanceID = []\<rparr>, None) \<and>
   Id (fst (snd (resourceVolumeAttachmentRead api_live c0 (d_attachment\<lparr>Id := ''i1-v1-001''\<rparr>)))) = [] \<and>
   resourceVolumeAttachmentRead api_live (c0\<lparr>calls := [AttachVolumeCall ''v1'' ''i1'']\<rparr>)
       (d_attachment\<lparr>Id := ''i1-v1-001''\<rparr>) =
     (c0\<lparr>calls := [AttachVolumeCall ''v1'' ''i1'', FindVolumeCall ''v1'']\<rparr>,
      d_attachment\<lparr>Id := ''i1-v1-001''\<rparr>, Returned []) \<and>
   Id (d_attachment\<lparr>Id := ''i1-v1-001''\<rparr>) \<noteq> [] \<and>
   (\<exists>v. FindVolume api_live
          (overwrite_region (d_attachment\<lparr>Id := ''i1-v1-001''\<rparr>)
             (c0\<lparr>calls := [AttachVolumeCall ''v1'' ''i1'']\<rparr>))
          (as_string (Get (d_attachment\<lparr>Id := ''i1-v1-001''\<rparr>) ''volume_id'')) = (Some v, None) \<and>
        vol_InstanceID v = ''i1'')"
proof -
  let ?d = "d_attachment\<lparr>Id := ''i1-v1-001''\<rparr>"
  let ?c = "c0\<lparr>calls := [AttachVolumeCall ''v1'' ''i1'']\<rparr>"
  have h: "FindVolume api_live (overwrite_region d_attachment c0)
             (as_string (Get d_attachment ''volume_id'')) =
           (Some \<lparr>vol_ID = ''v1'', vol_InstanceID = []\<rparr>, None)"
    by (simp add: fixture_defs model_defs)
  have h': "FindVolume api_live (overwrite_region ?d c0) (as_string (Get ?d ''volume_id'')) =
           (Some \<lparr>vol_ID = ''v1'', vol_InstanceID = []\<rparr>, None)"
    by (simp add: fixture_defs model_defs)
  have r: "resourceVolumeAttachmentRead api_live ?c ?d =
             (c0\<lparr>calls := [AttachVolumeCall ''v1'' ''i1'', FindVolumeCall ''v1'']\<rparr>, ?d, Returned [])"
    by (simp add: resourceVolumeAttachmentRead_def fixture_defs model_defs)
  have n: "Id ?d \<noteq> []" by simp
  have g: "as_string (Get ?d ''instance_id'') = ''i1''"
    by (simp add: fixture_defs model_defs)
  from attachment_read_invariant [where a = api_live and c = c0 and d = ?d
      and w = "\<lparr>vol_ID = ''v1'', vol_InstanceID = []\<rparr>", THEN conjunct2, rule_format]
    h'
  have a: "Id (fst (snd (resourceVolumeAttachmentRead api_live c0 ?d))) = []"
    by (simp split: prod.splits)
  from attachment_read_invariant [where a = api_live and c = ?c and d = ?d, THEN conjunct1,
      rule_format, OF conjI [OF r n]] g
  have b: "\<exists>v. FindVolume api_live (overwrite_region ?d ?c) (as_string (Get ?d ''volume_id'')) =
             (Some v, None) \<and> vol_InstanceID v = ''i1''"
    by auto
  from h a r n b show ?thesis by simp
qed

subsection \<open>The identifier of a volume attachment\<close>

text \<open>
  Claim C8, as the code has it. After a volume attachment create that returns no
  diagnostic, the identifier is either empty or \<open>PrefixedUniqueId\<close> of the prefix
  \<open>instance_id-volume_id-\<close> (the instance identifier, the volume identifier and the
  unique suffix), whatever the remote side has answered. It is the synthesized
  identifier exactly when the lookup of the read refresh, the last call of the create,
  returns no error and a volume whose instance pointer is \<open>instance_id\<close> and not
  empty; otherwise the refresh has emptied it.
\<close>

theorem create_identifier_synthesized:
  assumes "resourceVolumeAttachmentCreate uniq a c d = (c', d', Returned [])"
  shows "(Id d' = [] \<or>
          Id d' = PrefixedUniqueId uniq
            (as_string (Get d ''instance_id'') @ ''-'' @ as_string (Get d ''volume_id'') @ ''-'')) \<and>
         PrefixedUniqueId uniq
            (as_string (Get d ''instance_id'') @ ''-'' @ as_string (Get d ''volume_id'') @ ''-'') =
           as_string (Get d ''instance_id'') @ ''-'' @ as_string (Get d ''volume_id'') @ ''-'' @ uniq \<and>
         (Id d' = PrefixedUniqueId uniq
            (as_string (Get d ''instance_id'') @ ''-'' @ as_string (Get d ''volume_id'') @ ''-'') \<longleftrightarrow>
          (\<exists>w. FindVolume a (c'\<lparr>calls := butlast (calls c')\<rparr>) (as_string (Get d ''volume_id'')) =
                 (Some w, None) \<and>
               vol_InstanceID w = as_string (Get d ''instance_id'') \<and> vol_InstanceID w \<noteq> []))"
proof -
  let ?vid = "as_string (Get d ''volume_id'')"
  let ?iid = "as_string (Get d ''instance_id'')"
  let ?c1 = "overwrite_region d c"
  let ?c2 = "issue ?c1 (FindVolumeCall ?vid)"
  let ?c3 = "issue ?c2 (AttachVolumeCall ?vid ?iid)"
  let ?d1 = "SetId d (?iid @ ''-'' @ ?vid @ ''-'' @ uniq)"
  let ?create = "resourceVolumeAttachmentCreate uniq a c d"
  have "\<exists>cr. overwrite_region d cr = cr \<and>
          resourceVolumeAttachmentRead a cr ?d1 = (c', d', Returned [])"
  proof (cases "FindVolume a ?c1 ?vid")
    case (Pair resp err)
    show ?thesis
    proof (cases err)
      case (Some e)
      with Pair have "FindVolume a ?c1 ?vid = (resp, Some e)"
        by simp
      then have "?create = (?c2, d, Returned (Errorf (''[ERR] Error retrieving volume: '' @ e)))"
        by (simp add: resourceVolumeAttachmentCreate_def Let_def split: option.splits)
      with assms show ?thesis
        by (simp add: Errorf_def)
    next
      case None
      show ?thesis
      proof (cases resp)
        case None
        with Pair \<open>err = None\<close> have "FindVolume a ?c1 ?vid = (None, None)"
          by simp
        then have "?create = (?c2, d, NilDeref)"
          by (simp add: resourceVolumeAttachmentCreate_def Let_def)
        with assms show ?thesis
          by simp
      next
        case (Some v)
        with Pair \<open>err = None\<close> have fv: "FindVolume a ?c1 ?vid = (Some v, None)"
          by simp
        note found = resourceVolumeAttachmentCreate_found [OF fv, of uniq]
        show ?thesis
        proof (cases "vol_InstanceID v = [] \<or> vol_InstanceID v \<noteq> ?iid")
          case True
          show ?thesis
          proof (cases "AttachVolume a ?c2 ?vid ?iid")
            case None
            have "?create = resourceVolumeAttachmentRead a ?c3 ?d1"
              unfolding found if_P [OF True] None by simp
            with assms have "resourceVolumeAttachmentRead a ?c3 ?d1 = (c', d', Returned [])"
              by simp
            moreover have "overwrite_region d ?c3 = ?c3"
              by (simp only: overwrite_region_issue overwrite_region_idem)
            ultimately show ?thesis by blast
          next
            case (Some e)
            have "?create = (?c3, d, Returned (Errorf (''[ERR] error attaching volume to instance '' @ e)))"
              unfolding found if_P [OF True] Some by simp
            with assms show ?thesis
              by (simp add: Errorf_def)
          qed
        next
          case False
          have "?create = resourceVolumeAttachmentRead a ?c2 ?d1"
            unfolding found by (rule if_not_P [OF False])
          with assms have "resourceVolumeAttachmentRead a ?c2 ?d1 = (c', d', Returned [])"
            by simp
          moreover have "overwrite_region d ?c2 = ?c2"
            by (simp only: overwrite_region_issue overwrite_region_idem)
          ultimately show ?thesis by blast
        qed
      qed
    qed
  qed
  then obtain cr where cr: "overwrite_region d cr = cr"
    and rd: "resourceVolumeAttachmentRead a cr ?d1 = (c', d', Returned [])"
    by blast
  have reg: "overwrite_region ?d1 cr = cr"
    by (simp only: overwrite_region_SetId cr)
  from resourceVolumeAttachmentRead_returned [OF rd]
  have c': "c' = issue cr (FindVolumeCall ?vid)"
    and d': "d' = (if \<exists>w. FindVolume a cr ?vid = (Some w, None) \<and>
                       vol_InstanceID w = ?iid \<and> vol_InstanceID w \<noteq> []
                  then ?d1 else SetId ?d1 [])"
    by (simp_all only: reg Get_SetId)
  have before: "c'\<lparr>calls := butlast (calls c')\<rparr> = cr"
    by (simp add: c' issue_def)
  show ?thesis
    unfolding before using d' by (auto simp add: Id_SetId PrefixedUniqueId_def)
qed

text \<open>A create on the live remote, and one on the remote whose attachment does not show yet.\<close>

theorem create_identifier_synthesized_witness:
  "resourceVolumeAttachmentCreate ''001'' api_live c0 d_attachment =
     (c0\<lparr>calls := [FindVolumeCall ''v1'', AttachVolumeCall ''v1'' ''i1'', FindVolumeCall ''v1'']\<rparr>,
      d_attachment\<lparr>Id := ''i1-v1-001''\<rparr>, Returned []) \<and>
   Id (d_attachment\<lparr>Id := ''i1-v1-001''\<rparr>) =
     PrefixedUniqueId ''001''
       (as_string (Get d_attachment ''instance_id'') @ ''-'' @ as_string (Get d_attachment ''volume_id'')
        @ ''-'') \<and>
   (\<exists>w. FindVolume api_live
          (c0\<lparr>calls := [FindVolumeCall ''v1'', AttachVolumeCall ''v1'' ''i1'']\<rparr>)
          (as_string (Get d_attachment ''volume_id'')) = (Some w, None) \<and>
        vol_InstanceID w = as_string (Get d_attachment ''instance_id'') \<and> vol_InstanceID w \<noteq> [])"
proof -
  have r: "resourceVolumeAttachmentCreate ''001'' api_live c0 d_attachment =
     (c0\<lparr>calls := [FindVolumeCall ''v1'', AttachVolumeCall ''v1'' ''i1'', FindVolumeCall ''v1'']\<rparr>,
      d_attachment\<lparr>Id := ''i1-v1-001''\<rparr>, Returned [])"
    by (simp add: resourceVolumeAttachmentCreate_def resourceVolumeAttachmentRead_def
          fixture_defs model_defs)
  have i: "Id (d_attachment\<lparr>Id := ''i1-v1-001''\<rparr>) =
     PrefixedUniqueId ''001''
       (as_string (Get d_attachment ''instance_id'') @ ''-'' @ as_string (Get d_attachment ''volume_id'')
        @ ''-'')"
    by (simp add: fixture_defs model_defs)
  from create_identifier_synthesized [OF r, THEN conjunct2, THEN conjunct2] i r
  show ?thesis
    by (simp add: c0_def)
qed

text \<open>
  The claim as it is written fails on the remote whose attachment does not show yet:
  the create attaches the volume, the read refresh still finds no instance and empties
  the identifier, and the create returns no diagnostic.
\<close>

theorem create_identifier_counterexample:
  "snd (snd (resourceVolumeAttachmentCreate ''001'' api_pending c0 d_attachment)) = Returned [] \<and>
   issued c0 (fst (resourceVolumeAttachmentCreate ''001'' api_pending c0 d_attachment)) =
     [FindVolumeCall ''v1'', AttachVolumeCall ''v1'' ''i1'', FindVolumeCall ''v1''] \<and>
   Id (fst (snd (resourceVolumeAttachmentCreate ''001'' api_pending c0 d_attachment))) = [] \<and>
   Id (fst (snd (resourceVolumeAttachmentCreate ''001'' api_pending c0 d_attachment))) \<noteq>
     PrefixedUniqueId ''001''
       (as_string (Get d_attachment ''instance_id'') @ ''-'' @ as_string (Get d_attachment ''volume_id'')
        @ ''-'')"
  by (simp add: resourceVolumeAttachmentCreate_def resourceVolumeAttachmentRead_def
        fixture_defs model_defs)

subsection \<open>A nil response in the import\<close>

text \<open>
  Claim C9. In the import, after a successful parse, a lookup that returns an error
  together with a nil response does not return the error: the import dereferences the
  nil response. Conversely, the import dereferences nil only after a successful parse
  and a lookup with a nil response.
\<close>

theorem import_nil_dereference:
  "(parseID (Id d) = (f, r, None) \<and>
    FindFirewallRule a (overwrite_region d c) f r = (None, Some e) \<longrightarrow>
      snd (snd (resourceFirewallRuleImport parseID a c d)) = NilDeref) \<and>
   (snd (snd (resourceFirewallRuleImport parseID a c d)) = NilDeref \<longrightarrow>
      (\<exists>f' r' err. parseID (Id d) = (f', r', None) \<and>
         FindFirewallRule a (overwrite_region d c) f' r' = (None, err)))"
  by (auto simp add: resourceFirewallRuleImport_def Let_def split: prod.splits option.splits)

text \<open>The import of a rule from the remote where nothing exists.\<close>

theorem import_nil_dereference_witness:
  "parse_two (Id d_import) = (''fw1'', ''r1'', None) \<and>
   FindFirewallRule api_gone (overwrite_region d_import c0) ''fw1'' ''r1'' =
     (None, Some ''not found'') \<and>
   snd (snd (resourceFirewallRuleImport parse_two api_gone c0 d_import)) = NilDeref"
proof -
  have p: "parse_two (Id d_import) = (''fw1'', ''r1'', None)"
    by (simp add: parse_two_def d_import_def)
  have l: "FindFirewallRule api_gone (overwrite_region d_import c0) ''fw1'' ''r1'' =
             (None, Some ''not found'')"
    by (simp add: api_gone_def)
  from import_nil_dereference [where parseID = parse_two and a = api_gone and c = c0
      and d = "d_import", THEN conjunct1, rule_format, OF conjI [OF p l]] p l
  show ?thesis by simp
qed

subsection \<open>The end port in the firewall rule read\<close>

text \<open>
  Claim C10. After a successful lookup, the firewall rule read returns no diagnostic;
  \<open>end_port\<close> keeps its local value when the remote rule's end port is the empty
  string and is the remote value otherwise; \<open>firewall_id\<close>, \<open>protocol\<close>,
  \<open>start_port\<close>, \<open>cidr\<close>, \<open>direction\<close>, \<open>action\<close> and \<open>label\<close> are the
  remote rule's values.
\<close>

theorem rule_read_end_port:
  assumes "FindFirewallRule a (overwrite_region d c) (as_string (Get d ''firewall_id'')) (Id d) =
             (Some resp, None)"
  shows "case resourceFirewallRuleRead a c d of (c', d', out) \<Rightarrow>
           out = Returned [] \<and>
           Get d' ''end_port'' =
             (if rule_EndPort resp = [] then Get d ''end_port'' else VString (rule_EndPort resp)) \<and>
           Get d' ''firewall_id'' = VString (rule_FirewallID resp) \<and>
           Get d' ''protocol'' = VString (rule_Protocol resp) \<and>
           Get d' ''start_port'' = VString (rule_StartPort resp) \<and>
           Get d' ''cidr'' = VSet (rule_Cidr resp) \<and>
           Get d' ''direction'' = VString (rule_Direction resp) \<and>
           Get d' ''action'' = VString (rule_Action resp) \<and>
           Get d' ''label'' = VString (rule_Label resp)"
  using assms by (simp add: resourceFirewallRuleRead_def Let_def Get_Set_attr)

text \<open>The read of rule \<open>r1\<close>, whose end port is empty, into a state with end port 443.\<close>

theorem rule_read_end_port_witness:
  "FindFirewallRule api_live (overwrite_region d_rule c0) (as_string (Get d_rule ''firewall_id''))
     (Id d_rule) = (Some rule1, None) \<and>
   rule_EndPort rule1 = [] \<and>
   Get d_rule ''end_port'' = VString ''443'' \<and>
   Get (fst (snd (resourceFirewallRuleRead api_live c0 d_rule))) ''end_port'' = VString ''443'' \<and>
   Get (fst (snd (resourceFirewallRuleRead api_live c0 d_rule))) ''label'' = VString ''web'' \<and>
   Get (fst (snd (resourceFirewallRuleRead api_live c0 d_rule))) ''cidr'' = VSet [''0.0.0.0/0'']"
proof -
  have h: "FindFirewallRule api_live (overwrite_region d_rule c0)
             (as_string (Get d_rule ''firewall_id'')) (Id d_rule) = (Some rule1, None)"
    by (simp add: fixture_defs model_defs)
  have e: "rule_EndPort rule1 = []" by (simp add: rule1_def)
  have g: "Get d_rule ''end_port'' = VString ''443''" by (simp add: d_rule_def Get_def)
  from rule_read_end_port [OF h] h e g show ?thesis
    by (simp add: rule1_def split: prod.splits)
qed

end
